theory Spec2Isabelle
  imports Complex_Main "HOL-Library.Sublist" "HOL-Library.AList"
begin

section \<open>Python values, exceptions and strings\<close>

text \<open>
  The server is a Python program over dynamically typed values: tool arguments and JSON
  bodies are \<open>Dict[str, Any]\<close>. A value is one of the JSON-shaped Python objects. A
  Python \<open>str\<close> is modelled by the bytes of its UTF-8 encoding, a dict by an association
  list in insertion order (looked up with \<open>map_of\<close>), and a finite float by the real
  number it denotes (only its order against an int is ever used).
\<close>

datatype pyval =
    PNone
  | PBool bool
  | PInt int
  | PFloat real
  | PStr string
  | PList "pyval list"
  | PDict "(string \<times> pyval) list"

text \<open>\<open>type(v).__name__\<close>, as Python prints it in the messages of its own errors.\<close>

fun type_name :: "pyval \<Rightarrow> string" where
  "type_name PNone = ''NoneType''"
| "type_name (PBool b) = ''bool''"
| "type_name (PInt n) = ''int''"
| "type_name (PFloat r) = ''float''"
| "type_name (PStr s) = ''str''"
| "type_name (PList xs) = ''list''"
| "type_name (PDict d) = ''dict''"

text \<open>
  The exceptions the program meets, all of them subclasses of \<open>Exception\<close>. Each carries
  its message; \<open>HTTPStatusError\<close> also carries \<open>e.response.status_code\<close> and
  \<open>e.response.text\<close>, which the client reads. \<open>RequestError\<close> stands for httpx's
  transport-level errors, \<open>OtherException\<close> for any other exception a library raises
  (a JSON decoding error, an invalid URL).
\<close>

datatype exn =
    ValueError string
  | KeyError string
  | TypeError string
  | AttributeError string
  | IntigritiAPIError string
  | HTTPStatusError string int string
  | RequestError string
  | OtherException string

text \<open>\<open>str(e)\<close>: the message; for a \<open>KeyError\<close> the quoted key.\<close>

fun str_exn :: "exn \<Rightarrow> string" where
  "str_exn (ValueError m) = m"
| "str_exn (KeyError k) = [CHR 0x27] @ k @ [CHR 0x27]"
| "str_exn (TypeError m) = m"
| "str_exn (AttributeError m) = m"
| "str_exn (IntigritiAPIError m) = m"
| "str_exn (HTTPStatusError m c t) = m"
| "str_exn (RequestError m) = m"
| "str_exn (OtherException m) = m"

text \<open>\<open>str.lstrip(chars)\<close> and \<open>str.rstrip(chars)\<close>: drop every leading (trailing)
  character that is one of \<open>chars\<close>.\<close>

definition lstrip :: "string \<Rightarrow> string \<Rightarrow> string" where
  "lstrip chars s = dropWhile (\<lambda>c. c \<in> set chars) s"

definition rstrip :: "string \<Rightarrow> string \<Rightarrow> string" where
  "rstrip chars s = rev (dropWhile (\<lambda>c. c \<in> set chars) (rev s))"

text \<open>\<open>str(n)\<close> for an int: decimal digits, with a sign when negative.\<close>

function str_nat :: "nat \<Rightarrow> string" where
  "str_nat n =
     (if n < 10 then [''0123456789'' ! n]
      else str_nat (n div 10) @ [''0123456789'' ! (n mod 10)])"
  by pat_completeness auto
termination
  by (relation "measure id") auto

definition str_int :: "int \<Rightarrow> string" where
  "str_int i = (if i < 0 then CHR ''-'' # str_nat (nat (- i)) else str_nat (nat i))"

text \<open>
  \<open>str(v)\<close>, which an f-string applies to the value it formats. For floats, lists and
  dicts Python prints the \<open>repr\<close>, whose algorithm belongs to the interpreter: it is the
  parameter \<open>R\<close>.
\<close>

fun py_str :: "(pyval \<Rightarrow> string) \<Rightarrow> pyval \<Rightarrow> string" where
  "py_str R PNone = ''None''"
| "py_str R (PBool b) = (if b then ''True'' else ''False'')"
| "py_str R (PInt n) = str_int n"
| "py_str R (PStr s) = s"
| "py_str R v = R v"

text \<open>
  \<open>min(v, i)\<close> for an int \<open>i\<close>: Python evaluates \<open>i < v\<close> and returns \<open>i\<close> when it holds,
  \<open>v\<close> itself otherwise. An int compares with a bool, an int or a float; with any other
  value the comparison raises \<open>TypeError\<close>.
\<close>

fun int_lt :: "int \<Rightarrow> pyval \<Rightarrow> exn + bool" where
  "int_lt i (PInt n) = Inr (i < n)"
| "int_lt i (PBool b) = Inr (i < (if b then 1 else 0))"
| "int_lt i (PFloat r) = Inr (real_of_int i < r)"
| "int_lt i v =
     Inl (TypeError ([CHR 0x27] @ ''<' not supported between instances of 'int' and ''
                      @ [CHR 0x27] @ type_name v @ [CHR 0x27]))"

definition py_min :: "pyval \<Rightarrow> int \<Rightarrow> exn + pyval" where
  "py_min v i = (case int_lt i v of Inl e \<Rightarrow> Inl e | Inr b \<Rightarrow> Inr (if b then PInt i else v))"

text \<open>Dict access: \<open>d.get(k, default)\<close>, \<open>d[k]\<close> (which raises \<open>KeyError\<close>) and
  \<open>d[k] = v\<close>.\<close>

definition dict_get :: "(string \<times> pyval) list \<Rightarrow> string \<Rightarrow> pyval \<Rightarrow> pyval" where
  "dict_get d k dflt = (case map_of d k of None \<Rightarrow> dflt | Some v \<Rightarrow> v)"

definition dict_item :: "(string \<times> pyval) list \<Rightarrow> string \<Rightarrow> exn + pyval" where
  "dict_item d k = (case map_of d k of None \<Rightarrow> Inl (KeyError k) | Some v \<Rightarrow> Inr v)"

definition dict_set :: "(string \<times> pyval) list \<Rightarrow> string \<Rightarrow> pyval \<Rightarrow> (string \<times> pyval) list" where
  "dict_set d k v = AList.update k v d"

section \<open>The API client\<close>

text \<open>
  An \<open>httpx.Response\<close> as the client reads it: the status code, the header lookup
  \<open>response.headers.get(name)\<close> (\<open>None\<close> when httpx finds no such header), the body
  \<open>response.text\<close>, the result of \<open>response.json()\<close> (which raises on a body that is not
  JSON), and the message httpx gives the error that \<open>raise_for_status()\<close> raises.
\<close>

record response =
  status_code :: int
  resp_headers :: "string \<rightharpoonup> string"
  resp_text :: string
  resp_json :: "exn + pyval"
  status_error :: string

text \<open>
  One call of \<open>self.client.request(method=..., url=..., headers=..., **kwargs)\<close>: the
  request envelope. The keyword arguments hold \<open>params\<close> and \<open>json\<close> when given.
\<close>

record request =
  req_method :: pyval
  req_url :: string
  req_headers :: "(string \<times> string) list"
  req_kwargs :: "(string \<times> pyval) list"

text \<open>What awaiting \<open>client.request\<close> gives: a response, or an exception.\<close>

datatype outcome = Response response | Raises exn

text \<open>
  What the program does not own: \<open>urllib.parse.urljoin\<close> (which can raise on a malformed
  URL), \<open>json.dumps(value, indent=2, ensure_ascii=flag)\<close>, the interpreter's \<open>repr\<close>, and
  the remote service behind httpx, which answers a call of \<open>client.request\<close> given all
  the calls made so far (the last one is the call being answered). Everything below is
  proved for every such environment.
\<close>

record ext =
  urljoin :: "string \<Rightarrow> string \<Rightarrow> exn + string"
  json_dumps :: "bool \<Rightarrow> pyval \<Rightarrow> exn + string"
  py_repr :: "pyval \<Rightarrow> string"
  remote :: "request list \<Rightarrow> outcome"

text \<open>The client object: \<open>self.base_url\<close>, \<open>self.api_token\<close>, \<open>self.headers\<close>.\<close>

record IntigritiResearcherAPI =
  base_url :: string
  api_token :: string
  headers :: "(string \<times> string) list"

text \<open>
  The process state: the environment variables, the module's global \<open>api_client\<close>, and
  the calls of \<open>client.request\<close> made so far, oldest first. Log records are not modelled.
\<close>

record state =
  environ :: "string \<rightharpoonup> string"
  api_client :: "IntigritiResearcherAPI option"
  sent :: "request list"

definition default_base_url :: string where
  "default_base_url = ''https://api.intigriti.com/external/researcher''"

definition token_required :: string where
  "token_required =
     ''API token is required. Set INTIGRITI_API_TOKEN environment variable or pass api_token parameter.''"

text \<open>
  \<open>IntigritiResearcherAPI.__init__(base_url, api_token)\<close>, reading the environment
  \<open>env\<close>. \<open>api_token or os.getenv(...)\<close> takes the parameter unless it is \<open>None\<close> or
  empty; \<open>not self.api_token\<close> holds for \<open>None\<close> and for the empty string. The
  constructor makes no request.
\<close>

definition IntigritiResearcherAPI_init ::
  "string \<Rightarrow> string option \<Rightarrow> (string \<rightharpoonup> string) \<Rightarrow> exn + IntigritiResearcherAPI" where
  "IntigritiResearcherAPI_init url tok env =
     (let b = rstrip ''/'' url;
          t = (case tok of
                 None \<Rightarrow> env ''INTIGRITI_API_TOKEN''
               | Some a \<Rightarrow> if a \<noteq> [] then Some a else env ''INTIGRITI_API_TOKEN'')
      in case t of
           None \<Rightarrow> Inl (ValueError token_required)
         | Some a \<Rightarrow>
             if a = [] then Inl (ValueError token_required)
             else Inr \<lparr>base_url = b, api_token = a,
                       headers = [(''Authorization'', ''Bearer '' @ a),
                                  (''Content-Type'', ''application/json''),
                                  (''User-Agent'', ''IntigritiMCPServer/1.0'')]\<rparr>)"

text \<open>\<open>response.raise_for_status()\<close>: httpx raises unless the status is 2xx.\<close>

definition raise_for_status :: "response \<Rightarrow> exn + unit" where
  "raise_for_status r =
     (if 200 \<le> status_code r \<and> status_code r < 300 then Inr ()
      else Inl (HTTPStatusError (status_error r) (status_code r) (resp_text r)))"

text \<open>The body of the \<open>try\<close> in \<open>_make_request\<close>, from the outcome of the request on.\<close>

definition make_request_try :: "outcome \<Rightarrow> exn + pyval" where
  "make_request_try out =
     (case out of
        Raises e \<Rightarrow> Inl e
      | Response r \<Rightarrow>
          if status_code r = 429 then
            (let retry_after = (case resp_headers r ''Retry-After'' of None \<Rightarrow> ''60'' | Some v \<Rightarrow> v)
             in Inl (IntigritiAPIError (''Rate limited. Retry after '' @ retry_after @ '' seconds.'')))
          else if status_code r = 401 then
            Inl (IntigritiAPIError ''Authentication failed. Check your API token.'')
          else (case raise_for_status r of
                  Inl e \<Rightarrow> Inl e
                | Inr u \<Rightarrow> resp_json r))"

text \<open>Its two \<open>except\<close> clauses; any other exception propagates.\<close>

definition make_request_except :: "exn + pyval \<Rightarrow> exn + pyval" where
  "make_request_except res =
     (case res of
        Inl (HTTPStatusError m c t) \<Rightarrow>
          Inl (IntigritiAPIError (''API request failed: '' @ str_int c @ '' - '' @ t))
      | Inl (RequestError m) \<Rightarrow> Inl (IntigritiAPIError (''Network error: '' @ m))
      | other \<Rightarrow> other)"

text \<open>The first statement of \<open>_make_request\<close>, for an endpoint that is a \<open>str\<close>:
  \<open>url = urljoin(f"{self.base_url}/", endpoint.lstrip('/'))\<close>.\<close>

definition request_url :: "ext \<Rightarrow> IntigritiResearcherAPI \<Rightarrow> string \<Rightarrow> exn + string" where
  "request_url X api e = urljoin X (base_url api @ ''/'') (lstrip ''/'' e)"

text \<open>
  \<open>_make_request(method, endpoint, **kwargs)\<close>. The URL is computed before the \<open>try\<close>:
  \<open>endpoint.lstrip('/')\<close> raises \<open>AttributeError\<close> on a value that is not a \<open>str\<close>, and
  an error of \<open>urljoin\<close> propagates. Then exactly one request is made.
\<close>

definition make_request ::
  "ext \<Rightarrow> IntigritiResearcherAPI \<Rightarrow> pyval \<Rightarrow> pyval \<Rightarrow> (string \<times> pyval) list \<Rightarrow> state
     \<Rightarrow> (exn + pyval) \<times> state" where
  "make_request X api meth endpoint kwargs s =
     (case endpoint of
        PStr e \<Rightarrow>
          (case request_url X api e of
             Inl err \<Rightarrow> (Inl err, s)
           | Inr url \<Rightarrow>
               (let req = \<lparr>req_method = meth, req_url = url, req_headers = headers api,
                           req_kwargs = kwargs\<rparr>;
                    s' = s\<lparr>sent := sent s @ [req]\<rparr>
                in (make_request_except (make_request_try (remote X (sent s'))), s')))
      | v \<Rightarrow>
          (Inl (AttributeError ([CHR 0x27] @ type_name v @ [CHR 0x27]
                  @ '' object has no attribute 'lstrip'' @ [CHR 0x27])), s))"

text \<open>A keyword argument with a default: \<open>None\<close> is an argument the caller left out.\<close>

definition arg_default :: "'a option \<Rightarrow> 'a \<Rightarrow> 'a" where
  "arg_default a d = (case a of None \<Rightarrow> d | Some v \<Rightarrow> v)"

text \<open>
  The dict \<open>params\<close> that \<open>get_programs\<close> builds, from the limit already clamped: \<open>limit\<close>
  and \<open>offset\<close> first, then each filter that \<open>is not None\<close>.
\<close>

definition get_programs_params ::
  "pyval option \<Rightarrow> pyval option \<Rightarrow> pyval option \<Rightarrow> pyval \<Rightarrow> pyval option
     \<Rightarrow> (string \<times> pyval) list" where
  "get_programs_params status_id type_id following clamped offset =
     (let params0 = [(''limit'', clamped), (''offset'', arg_default offset (PInt 0))];
          params1 = (if arg_default status_id PNone \<noteq> PNone
                     then dict_set params0 ''statusId'' (arg_default status_id PNone)
                     else params0);
          params2 = (if arg_default type_id PNone \<noteq> PNone
                     then dict_set params1 ''typeId'' (arg_default type_id PNone)
                     else params1);
          params3 = (if arg_default following PNone \<noteq> PNone
                     then dict_set params2 ''following'' (arg_default following PNone)
                     else params2)
      in params3)"

text \<open>\<open>get_programs(status_id=None, type_id=None, following=None, limit=20, offset=0)\<close>:
  \<open>min(limit, 500)\<close> is evaluated first, inside the dict display.\<close>

definition get_programs ::
  "ext \<Rightarrow> IntigritiResearcherAPI \<Rightarrow> pyval option \<Rightarrow> pyval option \<Rightarrow> pyval option
     \<Rightarrow> pyval option \<Rightarrow> pyval option \<Rightarrow> state \<Rightarrow> (exn + pyval) \<times> state" where
  "get_programs X api status_id type_id following limit offset s =
     (case py_min (arg_default limit (PInt 20)) 500 of
        Inl e \<Rightarrow> (Inl e, s)
      | Inr clamped \<Rightarrow>
          make_request X api (PStr ''GET'') (PStr ''v1/programs'')
            [(''params'', PDict (get_programs_params status_id type_id following clamped offset))]
            s)"

text \<open>\<open>get_program_details(program_id)\<close>: the id is formatted into the path.\<close>

definition get_program_details ::
  "ext \<Rightarrow> IntigritiResearcherAPI \<Rightarrow> pyval \<Rightarrow> state \<Rightarrow> (exn + pyval) \<times> state" where
  "get_program_details X api program_id s =
     make_request X api (PStr ''GET'')
       (PStr (''v1/programs/'' @ py_str (py_repr X) program_id)) [] s"

text \<open>The dict \<open>params\<close> that \<open>get_program_activities\<close> builds.\<close>

definition get_program_activities_params ::
  "pyval option \<Rightarrow> pyval option \<Rightarrow> pyval \<Rightarrow> pyval option \<Rightarrow> (string \<times> pyval) list" where
  "get_program_activities_params created_since following clamped offset =
     (let params0 = [(''limit'', clamped), (''offset'', arg_default offset (PInt 0))];
          params1 = (if arg_default created_since PNone \<noteq> PNone
                     then dict_set params0 ''createdSince'' (arg_default created_since PNone)
                     else params0);
          params2 = (if arg_default following PNone \<noteq> PNone
                     then dict_set params1 ''following'' (arg_default following PNone)
                     else params1)
      in params2)"

text \<open>\<open>get_program_activities(created_since=None, following=None, limit=20, offset=0)\<close>.\<close>

definition get_program_activities ::
  "ext \<Rightarrow> IntigritiResearcherAPI \<Rightarrow> pyval option \<Rightarrow> pyval option
     \<Rightarrow> pyval option \<Rightarrow> pyval option \<Rightarrow> state \<Rightarrow> (exn + pyval) \<times> state" where
  "get_program_activities X api created_since following limit offset s =
     (case py_min (arg_default limit (PInt 20)) 500 of
        Inl e \<Rightarrow> (Inl e, s)
      | Inr clamped \<Rightarrow>
          make_request X api (PStr ''GET'') (PStr ''v1/programs/activities'')
            [(''params'', PDict (get_program_activities_params created_since following clamped offset))]
            s)"

definition get_program_domains ::
  "ext \<Rightarrow> IntigritiResearcherAPI \<Rightarrow> pyval \<Rightarrow> pyval \<Rightarrow> state \<Rightarrow> (exn + pyval) \<times> state" where
  "get_program_domains X api program_id version_id s =
     make_request X api (PStr ''GET'')
       (PStr (''v1/programs/'' @ py_str (py_repr X) program_id @ ''/domains/''
              @ py_str (py_repr X) version_id)) [] s"

definition get_program_rules_of_engagement ::
  "ext \<Rightarrow> IntigritiResearcherAPI \<Rightarrow> pyval \<Rightarrow> pyval \<Rightarrow> state \<Rightarrow> (exn + pyval) \<times> state" where
  "get_program_rules_of_engagement X api program_id version_id s =
     make_request X api (PStr ''GET'')
       (PStr (''v1/programs/'' @ py_str (py_repr X) program_id @ ''/rules-of-engagements/''
              @ py_str (py_repr X) version_id)) [] s"

text \<open>\<open>call_endpoint(method, endpoint, **kwargs)\<close>: the generic passthrough.\<close>

definition call_endpoint ::
  "ext \<Rightarrow> IntigritiResearcherAPI \<Rightarrow> pyval \<Rightarrow> pyval \<Rightarrow> (string \<times> pyval) list \<Rightarrow> state
     \<Rightarrow> (exn + pyval) \<times> state" where
  "call_endpoint X api meth endpoint kwargs s = make_request X api meth endpoint kwargs s"

section \<open>The tool and resource adapter\<close>

text \<open>The names of the six tools that \<open>list_tools()\<close> declares, in its order.\<close>

definition tool_names :: "string list" where
  "tool_names =
     [''get_programs'', ''get_program_details'', ''get_program_activities'',
      ''get_program_domains'', ''get_program_rules_of_engagement'', ''call_custom_endpoint'']"

text \<open>\<open>types.TextContent(type="text", text=...)\<close>.\<close>

record TextContent =
  tc_type :: string
  tc_text :: string

definition text_content :: "string \<Rightarrow> TextContent" where
  "text_content t = \<lparr>tc_type = ''text'', tc_text = t\<rparr>"

text \<open>
  \<open>if not api_client: api_client = IntigritiResearcherAPI()\<close>, as both \<open>call_tool\<close> and
  \<open>read_resource\<close> start: the global is set only when the constructor returns.
\<close>

definition ensure_client :: "state \<Rightarrow> (exn + IntigritiResearcherAPI) \<times> state" where
  "ensure_client s =
     (case api_client s of
        Some api \<Rightarrow> (Inr api, s)
      | None \<Rightarrow>
          (case IntigritiResearcherAPI_init default_base_url None (environ s) of
             Inl e \<Rightarrow> (Inl e, s)
           | Inr api \<Rightarrow> (Inr api, s\<lparr>api_client := Some api\<rparr>)))"

text \<open>The formatting step of \<open>call_tool\<close>:
  \<open>json.dumps(result, indent=2, ensure_ascii=False)\<close>, wrapped as one text content.\<close>

definition format_result ::
  "ext \<Rightarrow> (exn + pyval) \<times> state \<Rightarrow> (exn + TextContent list) \<times> state" where
  "format_result X rs =
     (case rs of
        (Inl e, s) \<Rightarrow> (Inl e, s)
      | (Inr result, s) \<Rightarrow>
          (case json_dumps X False result of
             Inl e \<Rightarrow> (Inl e, s)
           | Inr formatted \<Rightarrow> (Inr [text_content formatted], s)))"

text \<open>The body of the \<open>try\<close> in \<open>call_tool\<close>: dispatch on the name, then formatting.\<close>

definition call_tool_try ::
  "ext \<Rightarrow> IntigritiResearcherAPI \<Rightarrow> string \<Rightarrow> (string \<times> pyval) list \<Rightarrow> state
     \<Rightarrow> (exn + TextContent list) \<times> state" where
  "call_tool_try X api name arguments s =
     (if name = ''get_programs'' then
        format_result X
          (get_programs X api
             (Some (dict_get arguments ''status_id'' PNone))
             (Some (dict_get arguments ''type_id'' PNone))
             (Some (dict_get arguments ''following'' PNone))
             (Some (dict_get arguments ''limit'' (PInt 20)))
             (Some (dict_get arguments ''offset'' (PInt 0))) s)
      else if name = ''get_program_details'' then
        (case dict_item arguments ''program_id'' of
           Inl e \<Rightarrow> (Inl e, s)
         | Inr program_id \<Rightarrow> format_result X (get_program_details X api program_id s))
      else if name = ''get_program_activities'' then
        format_result X
          (get_program_activities X api
             (Some (dict_get arguments ''created_since'' PNone))
             (Some (dict_get arguments ''following'' PNone))
             (Some (dict_get arguments ''limit'' (PInt 20)))
             (Some (dict_get arguments ''offset'' (PInt 0))) s)
      else if name = ''get_program_domains'' then
        (case dict_item arguments ''program_id'' of
           Inl e \<Rightarrow> (Inl e, s)
         | Inr program_id \<Rightarrow>
             (case dict_item arguments ''version_id'' of
                Inl e \<Rightarrow> (Inl e, s)
              | Inr version_id \<Rightarrow>
                  format_result X (get_program_domains X api program_id version_id s)))
      else if name = ''get_program_rules_of_engagement'' then
        (case dict_item arguments ''program_id'' of
           Inl e \<Rightarrow> (Inl e, s)
         | Inr program_id \<Rightarrow>
             (case dict_item arguments ''version_id'' of
                Inl e \<Rightarrow> (Inl e, s)
              | Inr version_id \<Rightarrow>
                  format_result X
                    (get_program_rules_of_engagement X api program_id version_id s)))
      else if name = ''call_custom_endpoint'' then
        (let kwargs0 = [];
             kwargs1 = (case map_of arguments ''params'' of
                          None \<Rightarrow> kwargs0
                        | Some v \<Rightarrow> dict_set kwargs0 ''params'' v);
             kwargs2 = (case map_of arguments ''json_data'' of
                          None \<Rightarrow> kwargs1
                        | Some v \<Rightarrow> dict_set kwargs1 ''json'' v)
         in case dict_item arguments ''method'' of
              Inl e \<Rightarrow> (Inl e, s)
            | Inr meth \<Rightarrow>
                (case dict_item arguments ''endpoint'' of
                   Inl e \<Rightarrow> (Inl e, s)
                 | Inr endpoint \<Rightarrow>
                     format_result X (call_endpoint X api meth endpoint kwargs2 s)))
      else (Inr [text_content (''Unknown tool: '' @ name)], s))"

text \<open>
  \<open>call_tool(name, arguments)\<close>. The result is a sum so that an exception leaving the
  function is a value of the model: the construction is guarded by
  \<open>except ValueError\<close> only, the body by \<open>except IntigritiAPIError\<close> and
  \<open>except Exception\<close>.
\<close>

definition call_tool ::
  "ext \<Rightarrow> string \<Rightarrow> (string \<times> pyval) list \<Rightarrow> state \<Rightarrow> (exn + TextContent list) \<times> state" where
  "call_tool X name arguments s =
     (case ensure_client s of
        (Inl (ValueError m), s1) \<Rightarrow> (Inr [text_content (''Configuration error: '' @ m)], s1)
      | (Inl e, s1) \<Rightarrow> (Inl e, s1)
      | (Inr api, s1) \<Rightarrow>
          (case call_tool_try X api name arguments s1 of
             (Inl (IntigritiAPIError m), s2) \<Rightarrow> (Inr [text_content (''API error: '' @ m)], s2)
           | (Inl e, s2) \<Rightarrow> (Inr [text_content (''Error: '' @ str_exn e)], s2)
           | (Inr res, s2) \<Rightarrow> (Inr res, s2)))"

text \<open>\<open>programs.get('maxCount', 'Unknown')\<close> on whatever \<open>response.json()\<close> returned:
  only a dict has \<open>get\<close>.\<close>

definition py_get :: "pyval \<Rightarrow> string \<Rightarrow> pyval \<Rightarrow> exn + pyval" where
  "py_get v k dflt =
     (case v of
        PDict d \<Rightarrow> Inr (dict_get d k dflt)
      | other \<Rightarrow> Inl (AttributeError ([CHR 0x27] @ type_name other @ [CHR 0x27]
                         @ '' object has no attribute 'get'' @ [CHR 0x27])))"

text \<open>The check mark U+2705 and the cross mark U+274C, in UTF-8.\<close>

definition check_mark :: string where
  "check_mark = [CHR 0xE2, CHR 0x9C, CHR 0x85]"

definition cross_mark :: string where
  "cross_mark = [CHR 0xE2, CHR 0x9D, CHR 0x8C]"

definition status_uri :: string where
  "status_uri = ''intigriti://api/status''"

definition endpoints_uri :: string where
  "endpoints_uri = ''intigriti://api/endpoints''"

definition endpoints :: pyval where
  "endpoints = PDict
     [(''programs'', PStr ''GET /v1/programs - Get all programs you have access to''),
      (''program_details'', PStr ''GET /v1/programs/{programId} - Get program details''),
      (''program_activities'',
         PStr ''GET /v1/programs/activities - Get all program activities''),
      (''program_domains'',
         PStr ''GET /v1/programs/{programId}/domains/{versionId} - Get program domains''),
      (''program_rules'',
         PStr ''GET /v1/programs/{programId}/rules-of-engagements/{versionId} - Get rules of engagement'')]"

text \<open>
  \<open>read_resource(uri)\<close>, on \<open>str(uri)\<close>. The client is constructed outside any \<open>try\<close>;
  the \<open>try\<close> of the status branch holds the probe \<open>get_programs(limit=1)\<close> and the
  formatting of its result.
\<close>

definition read_resource :: "ext \<Rightarrow> string \<Rightarrow> state \<Rightarrow> (exn + string) \<times> state" where
  "read_resource X uri s =
     (case ensure_client s of
        (Inl e, s1) \<Rightarrow> (Inl e, s1)
      | (Inr api, s1) \<Rightarrow>
          if uri = status_uri then
            (case get_programs X api None None None (Some (PInt 1)) None s1 of
               (res, s2) \<Rightarrow>
                 (case (case res of
                          Inl e \<Rightarrow> Inl e
                        | Inr programs \<Rightarrow> py_get programs ''maxCount'' (PStr ''Unknown'')) of
                    Inr v \<Rightarrow>
                      (Inr (check_mark @ '' API Connected'' @ [CHR 0x0A]
                            @ ''Total programs accessible: '' @ py_str (py_repr X) v), s2)
                  | Inl e \<Rightarrow>
                      (Inr (cross_mark @ '' API Connection Failed'' @ [CHR 0x0A]
                            @ ''Error: '' @ str_exn e), s2)))
          else if uri = endpoints_uri then (json_dumps X True endpoints, s1)
          else (Inl (ValueError (''Unknown resource: '' @ uri)), s1))"

section \<open>Sample values\<close>

text \<open>
  Concrete values at which the theorems below are instantiated: a client with the
  production base URL, a process that has made no request and holds no client, a response
  whose body is not JSON, and an environment whose \<open>urljoin\<close> appends (as the library
  does for a base ending in \<open>/\<close> and a plain relative path) and whose remote service
  gives one fixed outcome.
\<close>

definition sample_api :: IntigritiResearcherAPI where
  "sample_api =
     \<lparr>base_url = default_base_url, api_token = ''secret'',
      headers = [(''Authorization'', ''Bearer secret''),
                 (''Content-Type'', ''application/json''),
                 (''User-Agent'', ''IntigritiMCPServer/1.0'')]\<rparr>"

definition sample_ext :: "outcome \<Rightarrow> ext" where
  "sample_ext out =
     \<lparr>urljoin = (\<lambda>b u. Inr (b @ u)), json_dumps = (\<lambda>a v. Inr ''{}''),
      py_repr = (\<lambda>v. ''...''), remote = (\<lambda>h. out)\<rparr>"

definition sample_response :: "int \<Rightarrow> (string \<rightharpoonup> string) \<Rightarrow> string \<Rightarrow> response" where
  "sample_response c h t =
     \<lparr>status_code = c, resp_headers = h, resp_text = t,
      resp_json = Inl (OtherException ''Expecting value''), status_error = ''status error''\<rparr>"

definition fresh_state :: "(string \<rightharpoonup> string) \<Rightarrow> state" where
  "fresh_state env = \<lparr>environ = env, api_client = None, sent = []\<rparr>"

text \<open>A 200 response whose JSON body counts 42 programs.\<close>

definition count_response :: response where
  "count_response =
     \<lparr>status_code = 200, resp_headers = Map.empty, resp_text = ''...'',
      resp_json = Inr (PDict [(''maxCount'', PInt 42), (''records'', PList [])]),
      status_error = ''''\<rparr>"

text \<open>
  The answers of CPython's \<open>urljoin\<close> on the production base URL and four references, and an
  environment that resolves with this table (any other call of \<open>urljoin\<close> is an error there).
\<close>

definition urljoin_table :: "string \<Rightarrow> string \<Rightarrow> exn + string" where
  "urljoin_table b u =
     (if b = ''https://api.intigriti.com/external/researcher/'' \<and> u = ''v1/programs''
        then Inr ''https://api.intigriti.com/external/researcher/v1/programs''
      else if b = ''https://api.intigriti.com/external/researcher/''
              \<and> u = ''v1/programs/activities''
        then Inr ''https://api.intigriti.com/external/researcher/v1/programs/activities''
      else if b = ''https://api.intigriti.com/external/researcher/'' \<and> u = ''../../v2/admin''
        then Inr ''https://api.intigriti.com/v2/admin''
      else if b = ''https://api.intigriti.com/external/researcher/''
              \<and> u = ''https://evil.example/x''
        then Inr ''https://evil.example/x''
      else Inl (OtherException ''not tabulated''))"

definition table_ext :: "outcome \<Rightarrow> ext" where
  "table_ext out =
     \<lparr>urljoin = urljoin_table, json_dumps = (\<lambda>a v. Inr ''{}''),
      py_repr = (\<lambda>v. ''...''), remote = (\<lambda>h. out)\<rparr>"

section \<open>Error classification in \<open>_make_request\<close>\<close>

text \<open>Once the URL is resolved, \<open>_make_request\<close> makes one call of \<open>client.request\<close>
  and classifies its outcome.\<close>

lemma make_request_sends:
  assumes "request_url X api e = Inr url"
  shows "make_request X api meth (PStr e) kwargs s =
           (make_request_except (make_request_try (remote X (sent s @
              [\<lparr>req_method = meth, req_url = url, req_headers = headers api,
                 req_kwargs = kwargs\<rparr>]))),
            s\<lparr>sent := sent s @ [\<lparr>req_method = meth, req_url = url, req_headers = headers api,
                 req_kwargs = kwargs\<rparr>]\<rparr>)"
  using assms by (simp add: make_request_def Let_def)

text \<open>In full: either \<open>urljoin\<close> raises and nothing is sent, or the log of requests grows
  by the one request to the URL it returned.\<close>

lemma make_request_cases:
  "(case request_url X api e of
      Inl err \<Rightarrow> make_request X api meth (PStr e) kwargs s = (Inl err, s)
    | Inr u \<Rightarrow>
        sent (snd (make_request X api meth (PStr e) kwargs s))
          = sent s @ [\<lparr>req_method = meth, req_url = u, req_headers = headers api,
                        req_kwargs = kwargs\<rparr>])"
  by (simp add: make_request_def Let_def split: sum.splits)

lemma classify_401:
  "status_code r = 401 \<Longrightarrow> make_request_except (make_request_try (Response r))
     = Inl (IntigritiAPIError ''Authentication failed. Check your API token.'')"
  by (simp add: make_request_try_def make_request_except_def)

lemma classify_429:
  "status_code r = 429 \<Longrightarrow> make_request_except (make_request_try (Response r))
     = Inl (IntigritiAPIError (''Rate limited. Retry after ''
          @ (case resp_headers r ''Retry-After'' of None \<Rightarrow> ''60'' | Some v \<Rightarrow> v)
          @ '' seconds.''))"
  by (simp add: make_request_try_def make_request_except_def)

text \<open>
  C2. Whenever the request made by \<open>_make_request\<close> is answered with status 401, the call
  fails with \<open>IntigritiAPIError\<close> whose message is exactly
  "Authentication failed. Check your API token.": the response \<open>r\<close> is arbitrary but for
  its status, so the message is the same for every body, header and JSON content.
\<close>

theorem make_request_401:
  assumes "request_url X api e = Inr url"
    and "remote X (sent s @ [\<lparr>req_method = meth, req_url = url, req_headers = headers api,
                              req_kwargs = kwargs\<rparr>]) = Response r"
    and "status_code r = 401"
  shows "fst (make_request X api meth (PStr e) kwargs s)
           = Inl (IntigritiAPIError ''Authentication failed. Check your API token.'')"
  using assms by (simp add: make_request_sends classify_401)

text \<open>An instance: a 401 response whose body is \<open>token=leak\<close>.\<close>

theorem make_request_401_witness:
  "fst (make_request (sample_ext (Response (sample_response 401 Map.empty ''token=leak'')))
          sample_api (PStr ''GET'') (PStr ''v1/programs'') [] (fresh_state Map.empty))
     = Inl (IntigritiAPIError ''Authentication failed. Check your API token.'')"
  using make_request_401[of "sample_ext (Response (sample_response 401 Map.empty ''token=leak''))"
          sample_api "''v1/programs''" "default_base_url @ ''/v1/programs''" "fresh_state Map.empty"
          "PStr ''GET''" "[]" "sample_response 401 Map.empty ''token=leak''"]
  by (simp add: sample_ext_def sample_api_def sample_response_def lstrip_def request_url_def)

text \<open>
  C3. Whenever the request made by \<open>_make_request\<close> is answered with status 429, the call
  fails with \<open>IntigritiAPIError\<close> whose message contains the value of the \<open>Retry-After\<close>
  header when httpx finds one, and "60" when it finds none; the log of requests grows by
  that one request only, so nothing is retried.
\<close>

theorem make_request_429:
  assumes "request_url X api e = Inr url"
    and "remote X (sent s @ [\<lparr>req_method = meth, req_url = url, req_headers = headers api,
                              req_kwargs = kwargs\<rparr>]) = Response r"
    and "status_code r = 429"
  shows "\<exists>msg. make_request X api meth (PStr e) kwargs s =
           (Inl (IntigritiAPIError msg),
            s\<lparr>sent := sent s @ [\<lparr>req_method = meth, req_url = url, req_headers = headers api,
                                   req_kwargs = kwargs\<rparr>]\<rparr>)
         \<and> (case resp_headers r ''Retry-After'' of
               None \<Rightarrow> sublist ''60'' msg
             | Some v \<Rightarrow> sublist v msg)"
proof -
  define v where "v = (case resp_headers r ''Retry-After'' of None \<Rightarrow> ''60'' | Some a \<Rightarrow> a)"
  define msg where "msg = ''Rate limited. Retry after '' @ v @ '' seconds.''"
  have sent: "make_request X api meth (PStr e) kwargs s =
           (Inl (IntigritiAPIError msg),
            s\<lparr>sent := sent s @ [\<lparr>req_method = meth, req_url = url, req_headers = headers api,
                                   req_kwargs = kwargs\<rparr>]\<rparr>)"
    unfolding msg_def v_def
    using assms(2,3) by (simp only: make_request_sends[OF assms(1)] classify_429)
  have "sublist v msg"
    unfolding msg_def by (rule sublist_appendI)
  then have "case resp_headers r ''Retry-After'' of
               None \<Rightarrow> sublist ''60'' msg
             | Some a \<Rightarrow> sublist a msg"
    by (simp add: v_def split: option.splits)
  with sent show ?thesis by blast
qed

text \<open>Instances: a 429 response with \<open>Retry-After: 120\<close>, and one without the header.\<close>

theorem make_request_429_witness:
  "(\<exists>msg. fst (make_request
       (sample_ext (Response (sample_response 429 [''Retry-After'' \<mapsto> ''120''] ''slow down'')))
       sample_api (PStr ''GET'') (PStr ''v1/programs'') [] (fresh_state Map.empty))
     = Inl (IntigritiAPIError msg) \<and> sublist ''120'' msg)
   \<and> (\<exists>msg. fst (make_request
       (sample_ext (Response (sample_response 429 Map.empty ''slow down'')))
       sample_api (PStr ''GET'') (PStr ''v1/programs'') [] (fresh_state Map.empty))
     = Inl (IntigritiAPIError msg) \<and> sublist ''60'' msg)"
  using make_request_429[of
          "sample_ext (Response (sample_response 429 [''Retry-After'' \<mapsto> ''120''] ''slow down''))"
          sample_api "''v1/programs''" "default_base_url @ ''/v1/programs''" "fresh_state Map.empty"
          "PStr ''GET''" "[]" "sample_response 429 [''Retry-After'' \<mapsto> ''120''] ''slow down''"]
        make_request_429[of
          "sample_ext (Response (sample_response 429 Map.empty ''slow down''))"
          sample_api "''v1/programs''" "default_base_url @ ''/v1/programs''" "fresh_state Map.empty"
          "PStr ''GET''" "[]" "sample_response 429 Map.empty ''slow down''"]
  by (auto simp add: sample_ext_def sample_api_def sample_response_def lstrip_def request_url_def)

section \<open>The query of \<open>get_programs\<close> and \<open>get_program_activities\<close>\<close>

lemma py_min_int: "py_min (PInt n) 500 = Inr (PInt (min n 500))"
  by (simp add: py_min_def min_def)

lemma map_of_dict_set: "map_of (dict_set d k v) = (map_of d)(k \<mapsto> v)"
  by (simp add: dict_set_def update_conv')

text \<open>
  With an int limit (or none) both methods are one call of \<open>_make_request\<close>, so what goes out is
  the request that call makes.
\<close>

lemma get_programs_is_request:
  "get_programs X api status_id type_id following (map_option PInt limit) offset s
     = make_request X api (PStr ''GET'') (PStr ''v1/programs'')
         [(''params'', PDict (get_programs_params status_id type_id following
                                (PInt (min (arg_default limit 20) 500)) offset))] s"
proof -
  have "py_min (arg_default (map_option PInt limit) (PInt 20)) 500
          = Inr (PInt (min (arg_default limit 20) 500))"
    by (cases limit) (simp_all add: arg_default_def py_min_int)
  then show ?thesis by (simp add: get_programs_def)
qed

lemma get_program_activities_is_request:
  "get_program_activities X api created_since following (map_option PInt limit) offset s
     = make_request X api (PStr ''GET'') (PStr ''v1/programs/activities'')
         [(''params'', PDict (get_program_activities_params created_since following
                                (PInt (min (arg_default limit 20) 500)) offset))] s"
proof -
  have "py_min (arg_default (map_option PInt limit) (PInt 20)) 500
          = Inr (PInt (min (arg_default limit 20) 500))"
    by (cases limit) (simp_all add: arg_default_def py_min_int)
  then show ?thesis by (simp add: get_program_activities_def)
qed

lemma get_programs_sent:
  "(case request_url X api ''v1/programs'' of
      Inl err \<Rightarrow>
        get_programs X api status_id type_id following (map_option PInt limit) offset s
          = (Inl err, s)
    | Inr u \<Rightarrow>
        sent (snd (get_programs X api status_id type_id following (map_option PInt limit)
                     offset s))
          = sent s @ [\<lparr>req_method = PStr ''GET'', req_url = u, req_headers = headers api,
               req_kwargs = [(''params'',
                 PDict (get_programs_params status_id type_id following
                          (PInt (min (arg_default limit 20) 500)) offset))]\<rparr>])"
  unfolding get_programs_is_request by (rule make_request_cases)

lemma get_program_activities_sent:
  "(case request_url X api ''v1/programs/activities'' of
      Inl err \<Rightarrow>
        get_program_activities X api created_since following (map_option PInt limit) offset s
          = (Inl err, s)
    | Inr u \<Rightarrow>
        sent (snd (get_program_activities X api created_since following
                     (map_option PInt limit) offset s))
          = sent s @ [\<lparr>req_method = PStr ''GET'', req_url = u, req_headers = headers api,
               req_kwargs = [(''params'',
                 PDict (get_program_activities_params created_since following
                          (PInt (min (arg_default limit 20) 500)) offset))]\<rparr>])"
  unfolding get_program_activities_is_request by (rule make_request_cases)

text \<open>
  C1. For every call of \<open>get_programs\<close> and of \<open>get_program_activities\<close> with an int limit
  \<open>n\<close>, the request that goes out (the one entry the call adds to the log of requests) is
  the GET request whose query holds \<open>limit = min(n, 500)\<close>: a limit above 500 goes out as
  500, a limit of at most 500 goes out unchanged. No limit makes the method fail: the only
  failure before the request is an error of \<open>urljoin\<close>, which does not see the limit.
\<close>

theorem limit_clamped_to_500:
  "(case request_url X api ''v1/programs'' of
      Inl err \<Rightarrow>
        get_programs X api status_id type_id following (Some (PInt n)) offset s = (Inl err, s)
    | Inr u \<Rightarrow>
        sent (snd (get_programs X api status_id type_id following (Some (PInt n)) offset s))
          = sent s @ [\<lparr>req_method = PStr ''GET'', req_url = u, req_headers = headers api,
               req_kwargs = [(''params'',
                 PDict (get_programs_params status_id type_id following
                          (PInt (min n 500)) offset))]\<rparr>])
   \<and> map_of (get_programs_params status_id type_id following (PInt (min n 500)) offset) ''limit''
       = Some (PInt (min n 500))
   \<and> (case request_url X api ''v1/programs/activities'' of
      Inl err \<Rightarrow>
        get_program_activities X api created_since following (Some (PInt n)) offset s
          = (Inl err, s)
    | Inr u \<Rightarrow>
        sent (snd (get_program_activities X api created_since following (Some (PInt n))
                     offset s))
          = sent s @ [\<lparr>req_method = PStr ''GET'', req_url = u, req_headers = headers api,
               req_kwargs = [(''params'',
                 PDict (get_program_activities_params created_since following
                          (PInt (min n 500)) offset))]\<rparr>])
   \<and> map_of (get_program_activities_params created_since following (PInt (min n 500)) offset)
         ''limit''
       = Some (PInt (min n 500))
   \<and> get_programs X api status_id type_id following (Some (PInt n)) offset s
     = make_request X api (PStr ''GET'') (PStr ''v1/programs'')
         [(''params'', PDict (get_programs_params status_id type_id following
                                (PInt (min n 500)) offset))] s
   \<and> get_program_activities X api created_since following (Some (PInt n)) offset s
     = make_request X api (PStr ''GET'') (PStr ''v1/programs/activities'')
         [(''params'', PDict (get_program_activities_params created_since following
                                (PInt (min n 500)) offset))] s"
proof (intro conjI)
  show "case request_url X api ''v1/programs'' of
      Inl err \<Rightarrow>
        get_programs X api status_id type_id following (Some (PInt n)) offset s = (Inl err, s)
    | Inr u \<Rightarrow>
        sent (snd (get_programs X api status_id type_id following (Some (PInt n)) offset s))
          = sent s @ [\<lparr>req_method = PStr ''GET'', req_url = u, req_headers = headers api,
               req_kwargs = [(''params'',
                 PDict (get_programs_params status_id type_id following
                          (PInt (min n 500)) offset))]\<rparr>]"
    using get_programs_sent[of X api status_id type_id following "Some n" offset s]
    by (simp add: arg_default_def split: sum.splits)
  show "case request_url X api ''v1/programs/activities'' of
      Inl err \<Rightarrow>
        get_program_activities X api created_since following (Some (PInt n)) offset s
          = (Inl err, s)
    | Inr u \<Rightarrow>
        sent (snd (get_program_activities X api created_since following (Some (PInt n))
                     offset s))
          = sent s @ [\<lparr>req_method = PStr ''GET'', req_url = u, req_headers = headers api,
               req_kwargs = [(''params'',
                 PDict (get_program_activities_params created_since following
                          (PInt (min n 500)) offset))]\<rparr>]"
    using get_program_activities_sent[of X api created_since following "Some n" offset s]
    by (simp add: arg_default_def split: sum.splits)
  show "map_of (get_programs_params status_id type_id following (PInt (min n 500)) offset)
          ''limit'' = Some (PInt (min n 500))"
    by (simp add: get_programs_params_def Let_def map_of_dict_set)
  show "map_of (get_program_activities_params created_since following (PInt (min n 500)) offset)
         ''limit'' = Some (PInt (min n 500))"
    by (simp add: get_program_activities_params_def Let_def map_of_dict_set)
  show "get_programs X api status_id type_id following (Some (PInt n)) offset s
     = make_request X api (PStr ''GET'') (PStr ''v1/programs'')
         [(''params'', PDict (get_programs_params status_id type_id following
                                (PInt (min n 500)) offset))] s"
    using get_programs_is_request[of X api status_id type_id following "Some n" offset s]
    by (simp add: arg_default_def)
  show "get_program_activities X api created_since following (Some (PInt n)) offset s
     = make_request X api (PStr ''GET'') (PStr ''v1/programs/activities'')
         [(''params'', PDict (get_program_activities_params created_since following
                                (PInt (min n 500)) offset))] s"
    using get_program_activities_is_request[of X api created_since following "Some n" offset s]
    by (simp add: arg_default_def)
qed

text \<open>Instances: a limit of 1000 goes out as 500, a limit of 7 as 7.\<close>

theorem limit_clamped_to_500_witness:
  "sent (snd (get_programs (table_ext (Response count_response)) sample_api None None None
                (Some (PInt 1000)) None (fresh_state Map.empty)))
     = [\<lparr>req_method = PStr ''GET'',
          req_url = ''https://api.intigriti.com/external/researcher/v1/programs'',
          req_headers = headers sample_api,
          req_kwargs = [(''params'', PDict [(''limit'', PInt 500), (''offset'', PInt 0)])]\<rparr>]
   \<and> sent (snd (get_program_activities (table_ext (Response count_response)) sample_api
                   None None (Some (PInt 7)) None (fresh_state Map.empty)))
     = [\<lparr>req_method = PStr ''GET'',
          req_url = ''https://api.intigriti.com/external/researcher/v1/programs/activities'',
          req_headers = headers sample_api,
          req_kwargs = [(''params'', PDict [(''limit'', PInt 7), (''offset'', PInt 0)])]\<rparr>]"
proof -
  let ?X = "table_ext (Response count_response)"
  have u: "request_url ?X sample_api ''v1/programs''
             = Inr ''https://api.intigriti.com/external/researcher/v1/programs''"
    by (simp add: request_url_def table_ext_def urljoin_table_def sample_api_def
        default_base_url_def lstrip_def)
  have ua: "request_url ?X sample_api ''v1/programs/activities''
             = Inr ''https://api.intigriti.com/external/researcher/v1/programs/activities''"
    by (simp add: request_url_def table_ext_def urljoin_table_def sample_api_def
        default_base_url_def lstrip_def)
  have p: "get_programs_params None None None (PInt 500) None
             = [(''limit'', PInt 500), (''offset'', PInt 0)]"
    by (simp add: get_programs_params_def arg_default_def)
  have pa: "get_program_activities_params None None (PInt 7) None
             = [(''limit'', PInt 7), (''offset'', PInt 0)]"
    by (simp add: get_program_activities_params_def arg_default_def)
  have "sent (snd (get_programs ?X sample_api None None None (Some (PInt 1000)) None
                     (fresh_state Map.empty)))
     = [\<lparr>req_method = PStr ''GET'',
          req_url = ''https://api.intigriti.com/external/researcher/v1/programs'',
          req_headers = headers sample_api,
          req_kwargs = [(''params'', PDict [(''limit'', PInt 500), (''offset'', PInt 0)])]\<rparr>]"
    using limit_clamped_to_500[of ?X sample_api None None None 1000 None
            "fresh_state Map.empty" None, THEN conjunct1]
    by (simp add: u p fresh_state_def)
  moreover have "sent (snd (get_program_activities ?X sample_api None None (Some (PInt 7))
                     None (fresh_state Map.empty)))
     = [\<lparr>req_method = PStr ''GET'',
          req_url = ''https://api.intigriti.com/external/researcher/v1/programs/activities'',
          req_headers = headers sample_api,
          req_kwargs = [(''params'', PDict [(''limit'', PInt 7), (''offset'', PInt 0)])]\<rparr>]"
    using limit_clamped_to_500[of ?X sample_api None None None 7 None
            "fresh_state Map.empty" None, THEN conjunct2, THEN conjunct2, THEN conjunct1]
    by (simp add: ua pa fresh_state_def)
  ultimately show ?thesis by (rule conjI)
qed

text \<open>
  C7. For every call of \<open>get_programs\<close> (with an int limit or none), the query of the request
  that goes out has no key for a filter \<open>status_id\<close>, \<open>type_id\<close> or \<open>following\<close> that is left
  out or \<open>None\<close> (\<open>statusId\<close>, \<open>typeId\<close>, \<open>following\<close>), and holds a filter that is set under
  its key; \<open>limit\<close> and \<open>offset\<close> are always in it, and a call that gives neither sends
  exactly \<open>limit = 20\<close> and \<open>offset = 0\<close>. The same holds for \<open>get_program_activities\<close> with
  \<open>created_since\<close> (key \<open>createdSince\<close>) and \<open>following\<close>.
\<close>

theorem unset_filters_absent:
  "(case request_url X api ''v1/programs'' of
      Inl err \<Rightarrow>
        get_programs X api status_id type_id following (map_option PInt limit) offset s
          = (Inl err, s)
    | Inr u \<Rightarrow>
        sent (snd (get_programs X api status_id type_id following (map_option PInt limit)
                     offset s))
          = sent s @ [\<lparr>req_method = PStr ''GET'', req_url = u, req_headers = headers api,
               req_kwargs = [(''params'',
                 PDict (get_programs_params status_id type_id following
                          (PInt (min (arg_default limit 20) 500)) offset))]\<rparr>])
   \<and> map_of (get_programs_params status_id type_id following c offset) ''statusId''
       = (if arg_default status_id PNone = PNone then None
          else Some (arg_default status_id PNone))
   \<and> map_of (get_programs_params status_id type_id following c offset) ''typeId''
       = (if arg_default type_id PNone = PNone then None else Some (arg_default type_id PNone))
   \<and> map_of (get_programs_params status_id type_id following c offset) ''following''
       = (if arg_default following PNone = PNone then None
          else Some (arg_default following PNone))
   \<and> map_of (get_programs_params status_id type_id following c offset) ''limit'' = Some c
   \<and> map_of (get_programs_params status_id type_id following c offset) ''offset''
       = Some (arg_default offset (PInt 0))
   \<and> (case request_url X api ''v1/programs'' of
      Inl err \<Rightarrow> get_programs X api None None None None None s = (Inl err, s)
    | Inr u \<Rightarrow>
        sent (snd (get_programs X api None None None None None s))
          = sent s @ [\<lparr>req_method = PStr ''GET'', req_url = u, req_headers = headers api,
               req_kwargs = [(''params'',
                 PDict [(''limit'', PInt 20), (''offset'', PInt 0)])]\<rparr>])
   \<and> (case request_url X api ''v1/programs/activities'' of
      Inl err \<Rightarrow>
        get_program_activities X api created_since following (map_option PInt limit) offset s
          = (Inl err, s)
    | Inr u \<Rightarrow>
        sent (snd (get_program_activities X api created_since following
                     (map_option PInt limit) offset s))
          = sent s @ [\<lparr>req_method = PStr ''GET'', req_url = u, req_headers = headers api,
               req_kwargs = [(''params'',
                 PDict (get_program_activities_params created_since following
                          (PInt (min (arg_default limit 20) 500)) offset))]\<rparr>])
   \<and> map_of (get_program_activities_params created_since following c offset) ''createdSince''
       = (if arg_default created_since PNone = PNone then None
          else Some (arg_default created_since PNone))
   \<and> map_of (get_program_activities_params created_since following c offset) ''following''
       = (if arg_default following PNone = PNone then None
          else Some (arg_default following PNone))
   \<and> map_of (get_program_activities_params created_since following c offset) ''limit'' = Some c
   \<and> map_of (get_program_activities_params created_since following c offset) ''offset''
       = Some (arg_default offset (PInt 0))
   \<and> (case request_url X api ''v1/programs/activities'' of
      Inl err \<Rightarrow> get_program_activities X api None None None None s = (Inl err, s)
    | Inr u \<Rightarrow>
        sent (snd (get_program_activities X api None None None None s))
          = sent s @ [\<lparr>req_method = PStr ''GET'', req_url = u, req_headers = headers api,
               req_kwargs = [(''params'',
                 PDict [(''limit'', PInt 20), (''offset'', PInt 0)])]\<rparr>])
   \<and> get_programs X api status_id type_id following (map_option PInt limit) offset s
     = make_request X api (PStr ''GET'') (PStr ''v1/programs'')
         [(''params'', PDict (get_programs_params status_id type_id following
                                (PInt (min (arg_default limit 20) 500)) offset))] s
   \<and> get_program_activities X api created_since following (map_option PInt limit) offset s
     = make_request X api (PStr ''GET'') (PStr ''v1/programs/activities'')
         [(''params'', PDict (get_program_activities_params created_since following
                                (PInt (min (arg_default limit 20) 500)) offset))] s"
proof -
  have p0: "get_programs_params None None None (PInt 20) None
              = [(''limit'', PInt 20), (''offset'', PInt 0)]"
    by (simp add: get_programs_params_def arg_default_def)
  have a0: "get_program_activities_params None None (PInt 20) None
              = [(''limit'', PInt 20), (''offset'', PInt 0)]"
    by (simp add: get_program_activities_params_def arg_default_def)
  have gp0: "case request_url X api ''v1/programs'' of
      Inl err \<Rightarrow> get_programs X api None None None None None s = (Inl err, s)
    | Inr u \<Rightarrow>
        sent (snd (get_programs X api None None None None None s))
          = sent s @ [\<lparr>req_method = PStr ''GET'', req_url = u, req_headers = headers api,
               req_kwargs = [(''params'',
                 PDict [(''limit'', PInt 20), (''offset'', PInt 0)])]\<rparr>]"
    using get_programs_sent[of X api None None None None None s]
    by (simp add: arg_default_def p0 split: sum.splits)
  have ga0: "case request_url X api ''v1/programs/activities'' of
      Inl err \<Rightarrow> get_program_activities X api None None None None s = (Inl err, s)
    | Inr u \<Rightarrow>
        sent (snd (get_program_activities X api None None None None s))
          = sent s @ [\<lparr>req_method = PStr ''GET'', req_url = u, req_headers = headers api,
               req_kwargs = [(''params'',
                 PDict [(''limit'', PInt 20), (''offset'', PInt 0)])]\<rparr>]"
    using get_program_activities_sent[of X api None None None None s]
    by (simp add: arg_default_def a0 split: sum.splits)
  have keys: "map_of (get_programs_params status_id type_id following c offset) ''statusId''
       = (if arg_default status_id PNone = PNone then None
          else Some (arg_default status_id PNone))"
    "map_of (get_programs_params status_id type_id following c offset) ''typeId''
       = (if arg_default type_id PNone = PNone then None else Some (arg_default type_id PNone))"
    "map_of (get_programs_params status_id type_id following c offset) ''following''
       = (if arg_default following PNone = PNone then None
          else Some (arg_default following PNone))"
    "map_of (get_programs_params status_id type_id following c offset) ''limit'' = Some c"
    "map_of (get_programs_params status_id type_id following c offset) ''offset''
       = Some (arg_default offset (PInt 0))"
    by (simp_all add: get_programs_params_def Let_def map_of_dict_set)
  have akeys:
    "map_of (get_program_activities_params created_since following c offset) ''createdSince''
       = (if arg_default created_since PNone = PNone then None
          else Some (arg_default created_since PNone))"
    "map_of (get_program_activities_params created_since following c offset) ''following''
       = (if arg_default following PNone = PNone then None
          else Some (arg_default following PNone))"
    "map_of (get_program_activities_params created_since following c offset) ''limit'' = Some c"
    "map_of (get_program_activities_params created_since following c offset) ''offset''
       = Some (arg_default offset (PInt 0))"
    by (simp_all add: get_program_activities_params_def Let_def map_of_dict_set)
  from get_programs_sent[of X api status_id type_id following limit offset s]
       get_program_activities_sent[of X api created_since following limit offset s]
       get_programs_is_request[of X api status_id type_id following limit offset s]
       get_program_activities_is_request[of X api created_since following limit offset s]
       gp0 ga0 keys akeys
  show ?thesis by (intro conjI)
qed

text \<open>Instances: \<open>status_id = 3\<close> with \<open>following = None\<close>, and a call with no argument.\<close>

theorem unset_filters_absent_witness:
  "sent (snd (get_programs (table_ext (Response count_response)) sample_api
                (Some (PInt 3)) None (Some PNone) None None (fresh_state Map.empty)))
     = [\<lparr>req_method = PStr ''GET'',
          req_url = ''https://api.intigriti.com/external/researcher/v1/programs'',
          req_headers = headers sample_api,
          req_kwargs = [(''params'',
            PDict [(''limit'', PInt 20), (''offset'', PInt 0), (''statusId'', PInt 3)])]\<rparr>]
   \<and> sent (snd (get_program_activities (table_ext (Response count_response)) sample_api
                   None None None None (fresh_state Map.empty)))
     = [\<lparr>req_method = PStr ''GET'',
          req_url = ''https://api.intigriti.com/external/researcher/v1/programs/activities'',
          req_headers = headers sample_api,
          req_kwargs = [(''params'', PDict [(''limit'', PInt 20), (''offset'', PInt 0)])]\<rparr>]"
proof -
  let ?X = "table_ext (Response count_response)"
  have u: "request_url ?X sample_api ''v1/programs''
             = Inr ''https://api.intigriti.com/external/researcher/v1/programs''"
    by (simp add: request_url_def table_ext_def urljoin_table_def sample_api_def
        default_base_url_def lstrip_def)
  have ua: "request_url ?X sample_api ''v1/programs/activities''
             = Inr ''https://api.intigriti.com/external/researcher/v1/programs/activities''"
    by (simp add: request_url_def table_ext_def urljoin_table_def sample_api_def
        default_base_url_def lstrip_def)
  have p: "get_programs_params (Some (PInt 3)) None (Some PNone) (PInt 20) None
             = [(''limit'', PInt 20), (''offset'', PInt 0), (''statusId'', PInt 3)]"
    by (simp add: get_programs_params_def arg_default_def dict_set_def)
  note inst = unset_filters_absent[of ?X sample_api "Some (PInt 3)" None "Some PNone" None None
               "fresh_state Map.empty" PNone None]
  have "sent (snd (get_programs ?X sample_api (Some (PInt 3)) None (Some PNone) None None
                     (fresh_state Map.empty)))
     = [\<lparr>req_method = PStr ''GET'',
          req_url = ''https://api.intigriti.com/external/researcher/v1/programs'',
          req_headers = headers sample_api,
          req_kwargs = [(''params'',
            PDict [(''limit'', PInt 20), (''offset'', PInt 0), (''statusId'', PInt 3)])]\<rparr>]"
    using inst[THEN conjunct1] by (simp add: u p arg_default_def fresh_state_def)
  moreover have "sent (snd (get_program_activities ?X sample_api None None None None
                     (fresh_state Map.empty)))
     = [\<lparr>req_method = PStr ''GET'',
          req_url = ''https://api.intigriti.com/external/researcher/v1/programs/activities'',
          req_headers = headers sample_api,
          req_kwargs = [(''params'', PDict [(''limit'', PInt 20), (''offset'', PInt 0)])]\<rparr>]"
    using inst[THEN conjunct2, THEN conjunct2, THEN conjunct2, THEN conjunct2, THEN conjunct2,
              THEN conjunct2, THEN conjunct2, THEN conjunct2, THEN conjunct2, THEN conjunct2,
              THEN conjunct2, THEN conjunct2, THEN conjunct1]
    by (simp add: ua fresh_state_def)
  ultimately show ?thesis by (rule conjI)
qed

text \<open>
  A limit that is not a number (the input schema is not enforced before dispatch) is outside
  the signature \<open>limit: int\<close>: there \<open>min\<close> raises \<open>TypeError\<close> before any request.
\<close>

lemma get_programs_limit_not_a_number:
  "get_programs X api status_id type_id following (Some (PStr l)) offset s
     = (Inl (TypeError ([CHR 0x27] @ ''<' not supported between instances of 'int' and 'str''
                         @ [CHR 0x27])), s)"
  by (simp add: get_programs_def arg_default_def py_min_def)

section \<open>Construction of the client\<close>

lemma init_no_token:
  assumes "tok = None \<or> tok = Some []"
    and "env ''INTIGRITI_API_TOKEN'' = None \<or> env ''INTIGRITI_API_TOKEN'' = Some []"
  shows "IntigritiResearcherAPI_init url tok env = Inl (ValueError token_required)"
  using assms by (auto simp add: IntigritiResearcherAPI_init_def)

lemma init_explicit_token:
  assumes "a \<noteq> []"
  shows "IntigritiResearcherAPI_init url (Some a) env =
           Inr \<lparr>base_url = rstrip ''/'' url, api_token = a,
                headers = [(''Authorization'', ''Bearer '' @ a),
                           (''Content-Type'', ''application/json''),
                           (''User-Agent'', ''IntigritiMCPServer/1.0'')]\<rparr>"
  using assms by (simp add: IntigritiResearcherAPI_init_def)

lemma init_env_token:
  assumes "tok = None \<or> tok = Some []" and "env ''INTIGRITI_API_TOKEN'' = Some a" and "a \<noteq> []"
  shows "IntigritiResearcherAPI_init url tok env =
           Inr \<lparr>base_url = rstrip ''/'' url, api_token = a,
                headers = [(''Authorization'', ''Bearer '' @ a),
                           (''Content-Type'', ''application/json''),
                           (''User-Agent'', ''IntigritiMCPServer/1.0'')]\<rparr>"
  using assms by (auto simp add: IntigritiResearcherAPI_init_def)

lemma init_error: "IntigritiResearcherAPI_init url tok env = Inl e \<Longrightarrow> e = ValueError token_required"
  by (auto simp add: IntigritiResearcherAPI_init_def Let_def split: option.splits if_splits)

lemma ensure_client_no_token:
  assumes "api_client s = None"
    and "environ s ''INTIGRITI_API_TOKEN'' = None \<or> environ s ''INTIGRITI_API_TOKEN'' = Some []"
  shows "ensure_client s = (Inl (ValueError token_required), s)"
  using assms by (simp add: ensure_client_def init_no_token)

lemma ensure_client_error:
  "ensure_client s = (Inl e, s') \<Longrightarrow> e = ValueError token_required \<and> s' = s"
  by (auto simp add: ensure_client_def split: option.splits sum.splits dest: init_error)

text \<open>
  C5. Constructing the client with no explicit token (\<open>None\<close> or the empty string) while
  \<open>INTIGRITI_API_TOKEN\<close> is unset or empty fails at construction with the \<open>ValueError\<close>
  "API token is required. ..."; with a non-empty token from the parameter or from the
  environment, construction succeeds with that token. The constructor is a function of
  its arguments and the environment alone, and the lazy construction of a process without
  a token returns the error with the state, and so the log of requests, unchanged: the
  failure comes before any request.
\<close>

theorem init_requires_token:
  "((tok = None \<or> tok = Some [])
      \<and> (env ''INTIGRITI_API_TOKEN'' = None \<or> env ''INTIGRITI_API_TOKEN'' = Some [])
     \<longrightarrow> IntigritiResearcherAPI_init url tok env = Inl (ValueError token_required))
   \<and> (a \<noteq> [] \<longrightarrow>
        (\<exists>api. IntigritiResearcherAPI_init url (Some a) env = Inr api \<and> api_token api = a))
   \<and> ((tok = None \<or> tok = Some []) \<and> env ''INTIGRITI_API_TOKEN'' = Some a \<and> a \<noteq> [] \<longrightarrow>
        (\<exists>api. IntigritiResearcherAPI_init url tok env = Inr api \<and> api_token api = a))
   \<and> (api_client s = None
        \<and> (environ s ''INTIGRITI_API_TOKEN'' = None \<or> environ s ''INTIGRITI_API_TOKEN'' = Some [])
       \<longrightarrow> ensure_client s = (Inl (ValueError token_required), s))"
  by (simp add: init_no_token init_explicit_token init_env_token ensure_client_no_token)

text \<open>Instances: no token at all, a token passed explicitly, a token from the environment.\<close>

theorem init_requires_token_witness:
  "IntigritiResearcherAPI_init default_base_url None Map.empty = Inl (ValueError token_required)
   \<and> (\<exists>api. IntigritiResearcherAPI_init default_base_url (Some ''secret'') Map.empty = Inr api
          \<and> api_token api = ''secret'')
   \<and> (\<exists>api. IntigritiResearcherAPI_init default_base_url None
               [''INTIGRITI_API_TOKEN'' \<mapsto> ''secret''] = Inr api
          \<and> api_token api = ''secret'')
   \<and> ensure_client (fresh_state Map.empty)
       = (Inl (ValueError token_required), fresh_state Map.empty)"
  using init_requires_token[of None Map.empty default_base_url "''secret''" "fresh_state Map.empty"]
    init_requires_token[of None "[''INTIGRITI_API_TOKEN'' \<mapsto> ''secret'']" default_base_url
      "''secret''" "fresh_state Map.empty"]
  by (simp add: fresh_state_def)

section \<open>Dispatch in \<open>call_tool\<close>\<close>

text \<open>
  C10. The client-construction check of \<open>call_tool\<close> comes before the dispatch on the
  name: with no client and no token resolvable, \<open>call_tool\<close> returns the one text
  "Configuration error: API token is required. ..." for every name and every arguments,
  a name outside the catalog included; that text starts with "Configuration error:" and
  does not contain "Unknown tool". The state is unchanged.
\<close>

theorem call_tool_configuration_error_first:
  assumes "api_client s = None"
    and "environ s ''INTIGRITI_API_TOKEN'' = None \<or> environ s ''INTIGRITI_API_TOKEN'' = Some []"
  shows "call_tool X name arguments s
           = (Inr [text_content (''Configuration error: '' @ token_required)], s)
         \<and> prefix ''Configuration error:''
             (tc_text (text_content (''Configuration error: '' @ token_required)))
         \<and> \<not> sublist ''Unknown tool''
             (tc_text (text_content (''Configuration error: '' @ token_required)))"
proof -
  have "call_tool X name arguments s
           = (Inr [text_content (''Configuration error: '' @ token_required)], s)"
    by (simp add: call_tool_def ensure_client_no_token[OF assms])
  moreover have "prefix ''Configuration error:''
             (tc_text (text_content (''Configuration error: '' @ token_required)))"
    by (simp add: text_content_def)
  moreover have "\<not> sublist ''Unknown tool''
             (tc_text (text_content (''Configuration error: '' @ token_required)))"
    unfolding text_content_def token_required_def by code_simp
  ultimately show ?thesis by blast
qed

text \<open>An instance: a name outside the catalog, in a process without a token.\<close>

theorem call_tool_configuration_error_first_witness:
  "call_tool (sample_ext (Raises (RequestError ''unreachable''))) ''no_such_tool'' []
       (fresh_state Map.empty)
     = (Inr [text_content (''Configuration error: '' @ token_required)], fresh_state Map.empty)"
  using call_tool_configuration_error_first[of "fresh_state Map.empty"
          "sample_ext (Raises (RequestError ''unreachable''))" "''no_such_tool''" "[]"]
  by (simp add: fresh_state_def)

lemma ensure_client_with_client:
  "api_client s = Some api \<Longrightarrow> ensure_client s = (Inr api, s)"
  by (simp add: ensure_client_def)

lemma ensure_client_with_token:
  assumes "api_client s = None" and "environ s ''INTIGRITI_API_TOKEN'' = Some a" and "a \<noteq> []"
  shows "\<exists>api. ensure_client s = (Inr api, s\<lparr>api_client := Some api\<rparr>)"
  using assms by (simp add: ensure_client_def init_env_token)

lemma ensure_client_ok:
  assumes "api_client s \<noteq> None \<or> (\<exists>a. environ s ''INTIGRITI_API_TOKEN'' = Some a \<and> a \<noteq> [])"
  shows "\<exists>api s1. ensure_client s = (Inr api, s1) \<and> sent s1 = sent s"
proof (cases "api_client s")
  case None
  with assms obtain a where "environ s ''INTIGRITI_API_TOKEN'' = Some a" "a \<noteq> []" by auto
  from ensure_client_with_token[OF None this] show ?thesis by auto
next
  case (Some api)
  then show ?thesis by (simp add: ensure_client_with_client)
qed

lemma call_tool_try_unknown:
  "name \<notin> set tool_names \<Longrightarrow>
     call_tool_try X api name arguments s = (Inr [text_content (''Unknown tool: '' @ name)], s)"
  by (simp add: call_tool_try_def tool_names_def)

lemma call_tool_handlers:
  "\<exists>res. fst (case rs of
     (Inl (IntigritiAPIError m), s2) \<Rightarrow> (Inr [text_content (''API error: '' @ m)], s2)
   | (Inl e, s2) \<Rightarrow> (Inr [text_content (''Error: '' @ str_exn e)], s2)
   | (Inr res, s2) \<Rightarrow> (Inr res, s2)) = Inr res"
  by (auto split: prod.splits sum.splits exn.splits)

lemma call_tool_returns: "\<exists>res. fst (call_tool X name arguments s) = Inr res"
proof (cases "ensure_client s")
  case (Pair r s1)
  show ?thesis
  proof (cases r)
    case (Inl e)
    with Pair have "e = ValueError token_required" by (auto dest: ensure_client_error)
    with Pair Inl show ?thesis by (simp add: call_tool_def)
  next
    case (Inr api)
    with Pair show ?thesis
      using call_tool_handlers[of "call_tool_try X api name arguments s1"]
      by (simp add: call_tool_def)
  qed
qed

text \<open>
  C4, as the code has it. For every name, arguments and state, \<open>call_tool\<close> returns text
  content and raises nothing: the construction raises \<open>ValueError\<close> only, which is caught,
  and the body's handlers catch every \<open>Exception\<close> (a cancellation of the task by the event
  loop is outside this model). When a client exists or \<open>INTIGRITI_API_TOKEN\<close> holds a
  non-empty token, every name that is not one of the six tool names gives the one text
  "Unknown tool: " followed by the name, which contains "Unknown tool".
\<close>

theorem call_tool_unknown_tool:
  "(\<exists>res. fst (call_tool X name arguments s) = Inr res)
   \<and> ((api_client s \<noteq> None \<or> (\<exists>a. environ s ''INTIGRITI_API_TOKEN'' = Some a \<and> a \<noteq> []))
        \<and> name \<notin> set tool_names
       \<longrightarrow> fst (call_tool X name arguments s) = Inr [text_content (''Unknown tool: '' @ name)]
           \<and> sublist ''Unknown tool'' (tc_text (text_content (''Unknown tool: '' @ name))))"
proof (intro conjI impI)
  show "\<exists>res. fst (call_tool X name arguments s) = Inr res" by (rule call_tool_returns)
next
  assume a: "(api_client s \<noteq> None \<or> (\<exists>a. environ s ''INTIGRITI_API_TOKEN'' = Some a \<and> a \<noteq> []))
        \<and> name \<notin> set tool_names"
  then obtain api s1 where "ensure_client s = (Inr api, s1)"
    using ensure_client_ok by blast
  with a show "fst (call_tool X name arguments s) = Inr [text_content (''Unknown tool: '' @ name)]"
    by (simp add: call_tool_def call_tool_try_unknown)
next
  have "prefix ''Unknown tool'' (''Unknown tool: '' @ name)" by simp
  then have "sublist ''Unknown tool'' (''Unknown tool: '' @ name)"
    by (rule prefix_imp_sublist)
  then show "sublist ''Unknown tool'' (tc_text (text_content (''Unknown tool: '' @ name)))"
    by (simp add: text_content_def)
qed

text \<open>An instance: an unknown name, in a process whose environment holds a token.\<close>

theorem call_tool_unknown_tool_witness:
  "fst (call_tool (sample_ext (Raises (RequestError ''unreachable''))) ''no_such_tool'' []
       (fresh_state [''INTIGRITI_API_TOKEN'' \<mapsto> ''secret'']))
     = Inr [text_content ''Unknown tool: no_such_tool'']"
  using call_tool_unknown_tool[of "sample_ext (Raises (RequestError ''unreachable''))"
          "''no_such_tool''" "[]" "fresh_state [''INTIGRITI_API_TOKEN'' \<mapsto> ''secret'']"]
  by (simp add: fresh_state_def tool_names_def)

text \<open>
  C4 as stated fails where no client exists and no token is resolvable: the name
  \<open>no_such_tool\<close> is not in the catalog, and the result is the configuration error, whose
  text does not contain "Unknown tool".
\<close>

theorem call_tool_unknown_tool_counterexample:
  "''no_such_tool'' \<notin> set tool_names
   \<and> fst (call_tool (sample_ext (Raises (RequestError ''unreachable''))) ''no_such_tool'' []
           (fresh_state Map.empty))
       = Inr [text_content (''Configuration error: '' @ token_required)]
   \<and> \<not> sublist ''Unknown tool'' (tc_text (text_content (''Configuration error: '' @ token_required)))"
proof (intro conjI)
  show "''no_such_tool'' \<notin> set tool_names" by (simp add: tool_names_def)
  show "fst (call_tool (sample_ext (Raises (RequestError ''unreachable''))) ''no_such_tool'' []
           (fresh_state Map.empty))
       = Inr [text_content (''Configuration error: '' @ token_required)]"
    by (simp add: call_tool_def ensure_client_def fresh_state_def IntigritiResearcherAPI_init_def)
  show "\<not> sublist ''Unknown tool'' (tc_text (text_content (''Configuration error: '' @ token_required)))"
    unfolding text_content_def token_required_def by code_simp
qed

section \<open>The request URL\<close>

lemma lstrip_slashes: "lstrip ''/'' (replicate n CHR ''/'' @ e) = lstrip ''/'' e"
  by (induction n) (simp_all add: lstrip_def)

lemma lstrip_no_leading_slash: "\<not> prefix ''/'' (lstrip ''/'' e)"
proof
  assume "prefix ''/'' (lstrip ''/'' e)"
  then obtain r where r: "dropWhile (\<lambda>c. c \<in> set ''/'') e = CHR ''/'' # r"
    by (auto simp add: lstrip_def prefix_def)
  then have "dropWhile (\<lambda>c. c \<in> set ''/'') e \<noteq> []" by simp
  then have "\<not> (hd (dropWhile (\<lambda>c. c \<in> set ''/'') e) \<in> set ''/'')"
    by (rule hd_dropWhile)
  with r show False by simp
qed

lemma rstrip_no_trailing_slash: "\<not> suffix ''/'' (rstrip ''/'' url)"
proof
  assume "suffix ''/'' (rstrip ''/'' url)"
  then obtain p where "rev (dropWhile (\<lambda>c. c \<in> set ''/'') (rev url)) = p @ ''/''"
    by (auto simp add: rstrip_def suffix_def)
  then have r: "dropWhile (\<lambda>c. c \<in> set ''/'') (rev url) = CHR ''/'' # rev p"
    by (metis rev_rev_ident rev_append rev.simps(2) rev.simps(1) append_Cons append_Nil)
  then have "dropWhile (\<lambda>c. c \<in> set ''/'') (rev url) \<noteq> []" by simp
  then have "\<not> (hd (dropWhile (\<lambda>c. c \<in> set ''/'') (rev url)) \<in> set ''/'')"
    by (rule hd_dropWhile)
  with r show False by simp
qed

lemma init_base_url:
  "IntigritiResearcherAPI_init url tok env = Inr api \<Longrightarrow> base_url api = rstrip ''/'' url"
  by (auto simp add: IntigritiResearcherAPI_init_def Let_def split: option.splits if_splits)

text \<open>
  C6, as the code has it. For every method and endpoint string, \<open>_make_request\<close> hands
  \<open>urljoin\<close> the base \<open>base_url + "/"\<close> (a client built by the constructor has a \<open>base_url\<close>
  with no trailing "/") and the endpoint without its leading slashes, and makes its one
  request to exactly the URL that \<open>urljoin\<close> returns; when \<open>urljoin\<close> raises, nothing is sent.
  The reference never starts with "/", and an endpoint with leading slashes makes the same
  request as the endpoint without them, so a leading "/" never makes an endpoint replace
  the base URL's path. Which URL \<open>urljoin\<close> returns for the reference is not stated.
\<close>

theorem request_url_strips_leading_slashes:
  "\<not> prefix ''/'' (lstrip ''/'' e)
   \<and> lstrip ''/'' (replicate n CHR ''/'' @ e) = lstrip ''/'' e
   \<and> make_request X api meth (PStr (replicate n CHR ''/'' @ e)) kwargs s
       = make_request X api meth (PStr e) kwargs s
   \<and> (IntigritiResearcherAPI_init url tok env = Inr api \<longrightarrow> \<not> suffix ''/'' (base_url api))
   \<and> (case urljoin X (base_url api @ ''/'') (lstrip ''/'' e) of
         Inl err \<Rightarrow> make_request X api meth (PStr e) kwargs s = (Inl err, s)
       | Inr u \<Rightarrow>
           sent (snd (make_request X api meth (PStr e) kwargs s))
             = sent s @ [\<lparr>req_method = meth, req_url = u, req_headers = headers api,
                           req_kwargs = kwargs\<rparr>])"
proof (intro conjI impI)
  show "\<not> prefix ''/'' (lstrip ''/'' e)" by (rule lstrip_no_leading_slash)
  show "lstrip ''/'' (replicate n CHR ''/'' @ e) = lstrip ''/'' e" by (rule lstrip_slashes)
  show "make_request X api meth (PStr (replicate n CHR ''/'' @ e)) kwargs s
       = make_request X api meth (PStr e) kwargs s"
    by (simp add: make_request_def request_url_def lstrip_slashes)
  show "\<not> suffix ''/'' (base_url api)" if "IntigritiResearcherAPI_init url tok env = Inr api"
    using that by (simp add: init_base_url rstrip_no_trailing_slash)
  show "case urljoin X (base_url api @ ''/'') (lstrip ''/'' e) of
         Inl err \<Rightarrow> make_request X api meth (PStr e) kwargs s = (Inl err, s)
       | Inr u \<Rightarrow>
           sent (snd (make_request X api meth (PStr e) kwargs s))
             = sent s @ [\<lparr>req_method = meth, req_url = u, req_headers = headers api,
                           req_kwargs = kwargs\<rparr>]"
    using make_request_cases[where X = X and api = api and e = e and meth = meth
            and kwargs = kwargs and s = s]
    by (simp add: request_url_def)
qed

text \<open>
  Instances, with the answers CPython's \<open>urljoin\<close> gives: \<open>/v1/programs\<close> goes under the
  base path, while dot segments or a full URL after the leading slash still leave it.
\<close>

lemma urljoin_table_values:
  "urljoin_table (base_url sample_api @ ''/'') (lstrip ''/'' ''/v1/programs'')
     = Inr ''https://api.intigriti.com/external/researcher/v1/programs''"
  "urljoin_table (base_url sample_api @ ''/'') (lstrip ''/'' ''/../../v2/admin'')
     = Inr ''https://api.intigriti.com/v2/admin''"
  "urljoin_table (base_url sample_api @ ''/'') (lstrip ''/'' ''/https://evil.example/x'')
     = Inr ''https://evil.example/x''"
  by (simp_all add: urljoin_table_def sample_api_def default_base_url_def lstrip_def)

theorem request_url_strips_leading_slashes_witness:
  "\<not> suffix ''/'' (base_url sample_api)
   \<and> sent (snd (make_request (table_ext (Raises (RequestError ''unreachable''))) sample_api
                  (PStr ''GET'') (PStr ''/v1/programs'') [] (fresh_state Map.empty)))
       = [\<lparr>req_method = PStr ''GET'',
            req_url = ''https://api.intigriti.com/external/researcher/v1/programs'',
            req_headers = headers sample_api, req_kwargs = []\<rparr>]
   \<and> sent (snd (make_request (table_ext (Raises (RequestError ''unreachable''))) sample_api
                  (PStr ''GET'') (PStr ''/../../v2/admin'') [] (fresh_state Map.empty)))
       = [\<lparr>req_method = PStr ''GET'', req_url = ''https://api.intigriti.com/v2/admin'',
            req_headers = headers sample_api, req_kwargs = []\<rparr>]
   \<and> sent (snd (make_request (table_ext (Raises (RequestError ''unreachable''))) sample_api
                  (PStr ''GET'') (PStr ''/https://evil.example/x'') [] (fresh_state Map.empty)))
       = [\<lparr>req_method = PStr ''GET'', req_url = ''https://evil.example/x'',
            req_headers = headers sample_api, req_kwargs = []\<rparr>]"
proof -
  let ?X = "table_ext (Raises (RequestError ''unreachable''))"
  have init: "IntigritiResearcherAPI_init ''https://api.intigriti.com/external/researcher/''
                (Some ''secret'') Map.empty = Inr sample_api"
    by (simp add: IntigritiResearcherAPI_init_def sample_api_def rstrip_def default_base_url_def)
  have uj: "urljoin ?X = urljoin_table" by (simp add: table_ext_def)
  note inst = request_url_strips_leading_slashes[where X = ?X and api = sample_api
      and meth = "PStr ''GET''" and kwargs = "[]" and s = "fresh_state Map.empty"
      and url = "''https://api.intigriti.com/external/researcher/''" and tok = "Some ''secret''"
      and env = Map.empty and n = 0]
  have a: "\<not> suffix ''/'' (base_url sample_api)"
    using inst[of "''/v1/programs''"] init by blast
  have b: "sent (snd (make_request ?X sample_api (PStr ''GET'') (PStr ''/v1/programs'') []
                        (fresh_state Map.empty)))
       = [\<lparr>req_method = PStr ''GET'',
            req_url = ''https://api.intigriti.com/external/researcher/v1/programs'',
            req_headers = headers sample_api, req_kwargs = []\<rparr>]"
    using inst[of "''/v1/programs''"] by (simp add: uj urljoin_table_values fresh_state_def)
  have c: "sent (snd (make_request ?X sample_api (PStr ''GET'') (PStr ''/../../v2/admin'') []
                        (fresh_state Map.empty)))
       = [\<lparr>req_method = PStr ''GET'', req_url = ''https://api.intigriti.com/v2/admin'',
            req_headers = headers sample_api, req_kwargs = []\<rparr>]"
    using inst[of "''/../../v2/admin''"] by (simp add: uj urljoin_table_values fresh_state_def)
  have d: "sent (snd (make_request ?X sample_api (PStr ''GET'') (PStr ''/https://evil.example/x'')
                        [] (fresh_state Map.empty)))
       = [\<lparr>req_method = PStr ''GET'', req_url = ''https://evil.example/x'',
            req_headers = headers sample_api, req_kwargs = []\<rparr>]"
    using inst[of "''/https://evil.example/x''"]
    by (simp add: uj urljoin_table_values fresh_state_def)
  from a b c d show ?thesis by (intro conjI)
qed

text \<open>
  C6 as stated fails at the production base URL: by the claim, the relative endpoint
  \<open>v1/programs\<close> resolves under the base path and the absolute-looking \<open>/v1/programs\<close>
  replaces it. Whatever \<open>urljoin\<close> computes, the code cannot do both, since it resolves the
  two endpoints to the same URL.
\<close>

theorem request_url_absolute_path_counterexample:
  "\<not> (\<exists>X. request_url X sample_api ''v1/programs''
               = Inr ''https://api.intigriti.com/external/researcher/v1/programs''
           \<and> request_url X sample_api ''/v1/programs''
               = Inr ''https://api.intigriti.com/v1/programs'')"
proof
  assume "\<exists>X. request_url X sample_api ''v1/programs''
               = Inr ''https://api.intigriti.com/external/researcher/v1/programs''
           \<and> request_url X sample_api ''/v1/programs''
               = Inr ''https://api.intigriti.com/v1/programs''"
  then obtain X where
    rel: "request_url X sample_api ''v1/programs''
            = Inr ''https://api.intigriti.com/external/researcher/v1/programs''" and
    abs: "request_url X sample_api ''/v1/programs'' = Inr ''https://api.intigriti.com/v1/programs''"
    by blast
  have "request_url X sample_api ''/v1/programs'' = request_url X sample_api ''v1/programs''"
    by (simp add: request_url_def lstrip_def)
  with rel abs show False by simp
qed

section \<open>The status resource\<close>

text \<open>
  With a client at hand, a read of the status URI returns text whatever the probe does:
  the count under \<open>maxCount\<close> after the check mark when the probe returns a dict, the
  message of the error after the cross mark when the probe (or the lookup of the count)
  raises.
\<close>

lemma read_resource_status_success:
  assumes "ensure_client s = (Inr api, s1)"
    and "get_programs X api None None None (Some (PInt 1)) None s1 = (Inr (PDict d), s2)"
    and "map_of d ''maxCount'' = Some v"
  shows "read_resource X status_uri s =
           (Inr (check_mark @ '' API Connected'' @ [CHR 0x0A] @ ''Total programs accessible: ''
                 @ py_str (py_repr X) v), s2)"
  using assms by (simp add: read_resource_def py_get_def dict_get_def)

lemma read_resource_status_probe_error:
  assumes "ensure_client s = (Inr api, s1)"
    and "get_programs X api None None None (Some (PInt 1)) None s1 = (Inl e, s2)"
  shows "read_resource X status_uri s =
           (Inr (cross_mark @ '' API Connection Failed'' @ [CHR 0x0A] @ ''Error: '' @ str_exn e), s2)"
  using assms by (simp add: read_resource_def)

lemma read_resource_status_returns:
  assumes "ensure_client s = (Inr api, s1)"
  shows "\<exists>t. fst (read_resource X status_uri s) = Inr t"
  using assms
  by (auto simp add: read_resource_def split: prod.splits sum.splits)

text \<open>A run: the probe is answered with a count of 42, in a process whose environment
  holds a token.\<close>

lemma str_int_42: "str_int 42 = ''42''"
  by (simp add: str_int_def str_nat.simps[of 42] str_nat.simps[of 4])

lemma read_resource_status_42:
  "fst (read_resource (sample_ext (Response count_response)) status_uri
          (fresh_state [''INTIGRITI_API_TOKEN'' \<mapsto> ''secret'']))
     = Inr (check_mark @ '' API Connected'' @ [CHR 0x0A] @ ''Total programs accessible: 42'')"
proof -
  let ?X = "sample_ext (Response count_response)"
  let ?s = "fresh_state [''INTIGRITI_API_TOKEN'' \<mapsto> ''secret'']"
  obtain api where api: "ensure_client ?s = (Inr api, ?s\<lparr>api_client := Some api\<rparr>)"
    using ensure_client_with_token[of ?s "''secret''"] by (auto simp add: fresh_state_def)
  have url: "request_url ?X api ''v1/programs'' = Inr (base_url api @ ''/v1/programs'')"
    by (simp add: request_url_def sample_ext_def lstrip_def)
  have "fst (get_programs ?X api None None None (Some (PInt 1)) None (?s\<lparr>api_client := Some api\<rparr>))
          = Inr (PDict [(''maxCount'', PInt 42), (''records'', PList [])])"
    unfolding get_programs_def arg_default_def
    by (simp only: py_min_int option.case sum.case make_request_sends[OF url])
       (simp add: make_request_try_def make_request_except_def raise_for_status_def
          sample_ext_def count_response_def)
  then obtain s2 where
    "get_programs ?X api None None None (Some (PInt 1)) None (?s\<lparr>api_client := Some api\<rparr>)
       = (Inr (PDict [(''maxCount'', PInt 42), (''records'', PList [])]), s2)"
    by (metis prod.collapse)
  from read_resource_status_success[OF api this, of "PInt 42"] show ?thesis
    by (simp add: str_int_42)
qed

text \<open>
  C8. The claim holds of the probe, not of every read: in a process with no client and no
  token, the read of the status URI raises the constructor's \<open>ValueError\<close> out of
  \<open>read_resource\<close>, since the client is constructed before the \<open>try\<close>. (\<open>call_tool\<close>
  guards the same construction and returns the configuration error as text.)
\<close>

theorem read_resource_status_without_token:
  "read_resource X status_uri (fresh_state Map.empty)
     = (Inl (ValueError token_required), fresh_state Map.empty)"
  by (simp add: read_resource_def ensure_client_no_token fresh_state_def)

end
